theory Spec2Isabelle
  imports Main
begin

section \<open>The data of \<open>whatsapp/transcribe.py\<close>\<close>

text \<open>
  A Python \<open>str\<close> is a sequence of Unicode code points. The script trims one with
  \<open>str.strip()\<close>, whose notion of whitespace reaches beyond one byte, so a string is a list
  of code points here and not a list of 8-bit characters.
\<close>

type_synonym pystr = "nat list"

definition str :: "string \<Rightarrow> pystr" where
  \<comment> \<open>an ASCII literal of the source, as code points\<close>
  "str s = map of_char s"

definition isspace :: "nat \<Rightarrow> bool" where
  \<comment> \<open>the code points that CPython's \<open>str.strip()\<close> (no argument) removes\<close>
  "isspace c \<longleftrightarrow>
     (9 \<le> c \<and> c \<le> 13) \<or> (28 \<le> c \<and> c \<le> 32) \<or> c = 133 \<or> c = 160 \<or> c = 5760 \<or>
     (8192 \<le> c \<and> c \<le> 8202) \<or> c = 8232 \<or> c = 8233 \<or> c = 8239 \<or> c = 8287 \<or> c = 12288"

definition strip :: "pystr \<Rightarrow> pystr" where
  "strip s = rev (dropWhile isspace (rev (dropWhile isspace s)))"

text \<open>
  Modelled from the spec: the value that the library's \<open>transcribe\<close> returns. The library is
  not part of the repository; the spec says of its result only that it "exposes at least a
  text field (string)". The record is extensible, so any further fields are left open.
\<close>

record result =
  result_text :: pystr

text \<open>
  The imported module \<open>whisper\<close>, taken as a parameter: \<open>load_model\<close> resolves an identifier
  to a model handle of type \<open>'m\<close> or raises an exception \<open>'e\<close>; \<open>transcribe\<close> is the method of
  the handle, with the audio path and the keyword argument \<open>language\<close>. What the library itself
  writes or caches is its own concern and is not modelled; the module is assumed to import.
\<close>

record ('m, 'e) whisper =
  load_model :: "pystr \<Rightarrow> 'e + 'm"
  transcribe :: "'m \<Rightarrow> pystr \<Rightarrow> pystr \<Rightarrow> 'e + result"

text \<open>
  The encoding of standard output, as the set of code points it can encode. Every codec a
  Python text stream can have encodes the ASCII characters, so only the code points from 128
  on are left to the parameter. \<open>print\<close> raises \<open>UnicodeEncodeError\<close> on a string
  that holds any other code point, and then writes nothing.
\<close>

type_synonym encoding = "nat \<Rightarrow> bool"

definition encodable :: "encoding \<Rightarrow> pystr \<Rightarrow> bool" where
  "encodable enc s = list_all (\<lambda>c. c < 128 \<or> enc c) s"

definition utf_8 :: encoding where
  \<comment> \<open>all code points but the surrogates\<close>
  "utf_8 c \<longleftrightarrow> c < 55296 \<or> (57343 < c \<and> c \<le> 1114111)"

definition ascii :: encoding where
  "ascii c \<longleftrightarrow> c < 128"

text \<open>
  What a run does to the outside, in order: a call of the model loader with its identifier,
  a call of the transcription with audio path and language, a call of \<open>print\<close> with its
  argument.
\<close>

datatype event =
    Call_load_model pystr
  | Call_transcribe pystr pystr
  | Print pystr

text \<open>
  The exceptions a run can end with: \<open>sys.exit(n)\<close> raises \<open>SystemExit\<close>, an index out of
  range raises \<open>IndexError\<close>, \<open>print\<close> raises \<open>UnicodeEncodeError\<close>, and a failure of
  the library is carried as it is.
\<close>

datatype 'e exn =
    SystemExit int
  | IndexError
  | UnicodeEncodeError
  | Raised 'e

text \<open>The state a run threads: the calls made so far, and what standard output holds.\<close>

record world =
  trace :: "event list"
  out :: pystr

section \<open>Statements: the state is threaded, an exception ends the run\<close>

type_synonym ('e, 'a) py = "world \<Rightarrow> world \<times> ('e exn + 'a)"

definition py_return :: "'a \<Rightarrow> ('e, 'a) py" where
  "py_return x = (\<lambda>w. (w, Inr x))"

definition py_bind :: "('e, 'a) py \<Rightarrow> ('a \<Rightarrow> ('e, 'b) py) \<Rightarrow> ('e, 'b) py" where
  "py_bind m f = (\<lambda>w. case m w of
                         (w', Inl x) \<Rightarrow> (w', Inl x)
                       | (w', Inr v) \<Rightarrow> f v w')"

definition py_print :: "encoding \<Rightarrow> pystr \<Rightarrow> ('e, unit) py" where
  \<comment> \<open>\<open>print(s)\<close>: the string and a newline reach standard output, or the encoder raises\<close>
  "py_print enc s =
     (\<lambda>w. if encodable enc s
           then (w\<lparr>trace := trace w @ [Print s], out := out w @ s @ [10]\<rparr>, Inr ())
           else (w\<lparr>trace := trace w @ [Print s]\<rparr>, Inl UnicodeEncodeError))"

definition sys_exit :: "int \<Rightarrow> ('e, 'a) py" where
  "sys_exit n = (\<lambda>w. (w, Inl (SystemExit n)))"

definition getitem :: "'a list \<Rightarrow> nat \<Rightarrow> ('e, 'a) py" where
  \<comment> \<open>\<open>xs[i]\<close> for a literal index \<open>i \<ge> 0\<close>\<close>
  "getitem xs i = (\<lambda>w. (w, if i < length xs then Inr (xs ! i) else Inl IndexError))"

definition whisper_load_model :: "('m, 'e) whisper \<Rightarrow> pystr \<Rightarrow> ('e, 'm) py" where
  "whisper_load_model whisper name =
     (\<lambda>w. (w\<lparr>trace := trace w @ [Call_load_model name]\<rparr>,
           case load_model whisper name of Inl e \<Rightarrow> Inl (Raised e) | Inr model \<Rightarrow> Inr model))"

definition model_transcribe ::
  "('m, 'e) whisper \<Rightarrow> 'm \<Rightarrow> pystr \<Rightarrow> pystr \<Rightarrow> ('e, result) py" where
  "model_transcribe whisper model audio language =
     (\<lambda>w. (w\<lparr>trace := trace w @ [Call_transcribe audio language]\<rparr>,
           case transcribe whisper model audio language of
             Inl e \<Rightarrow> Inl (Raised e) | Inr r \<Rightarrow> Inr r))"

section \<open>The script\<close>

definition usage :: pystr where
  "usage = str ''Usage: python transcribe.py <audio_file>''"

definition transcribe_py ::
  "('m, 'e) whisper \<Rightarrow> encoding \<Rightarrow> pystr list \<Rightarrow> ('e, unit) py" where
  "transcribe_py whisper enc argv =
     py_bind (if length argv < 2
              then py_bind (py_print enc usage) (\<lambda>_. sys_exit 1)
              else py_return ()) (\<lambda>_.
     py_bind (getitem argv 1) (\<lambda>audio_path.
     py_bind (if length argv > 2 then getitem argv 2 else py_return (str ''base'')) (\<lambda>model_name.
     py_bind (whisper_load_model whisper model_name) (\<lambda>model.
     py_bind (model_transcribe whisper model audio_path (str ''en'')) (\<lambda>result.
     py_print enc (strip (result_text result)))))))"

text \<open>
  A run of the process starts with no call made and nothing written. Its exit status is 0
  when the script runs to its end, the argument of \<open>sys.exit\<close> (as the operating system
  truncates it), and 1 for any other uncaught exception.
\<close>

definition run ::
  "('m, 'e) whisper \<Rightarrow> encoding \<Rightarrow> pystr list \<Rightarrow> world \<times> ('e exn + unit)" where
  "run whisper enc argv = transcribe_py whisper enc argv \<lparr>trace = [], out = []\<rparr>"

definition events :: "world \<times> ('e exn + unit) \<Rightarrow> event list" where
  "events r = trace (fst r)"

definition stdout :: "world \<times> ('e exn + unit) \<Rightarrow> pystr" where
  "stdout r = out (fst r)"

definition outcome :: "world \<times> ('e exn + unit) \<Rightarrow> 'e exn + unit" where
  "outcome r = snd r"

fun exit_status :: "'e exn + unit \<Rightarrow> int" where
  "exit_status (Inr u) = 0"
| "exit_status (Inl (SystemExit n)) = n mod 256"
| "exit_status (Inl IndexError) = 1"
| "exit_status (Inl UnicodeEncodeError) = 1"
| "exit_status (Inl (Raised e)) = 1"

fun is_call :: "event \<Rightarrow> bool" where
  "is_call (Print s) = False"
| "is_call (Call_load_model name) = True"
| "is_call (Call_transcribe audio language) = True"

text \<open>
  What the delegates were given during a run, in call order: the identifiers passed to the
  model loader, and the (audio path, language) pairs passed to the transcription.
\<close>

fun loader_args :: "event list \<Rightarrow> pystr list" where
  "loader_args [] = []"
| "loader_args (Call_load_model name # evs) = name # loader_args evs"
| "loader_args (ev # evs) = loader_args evs"

fun transcribe_args :: "event list \<Rightarrow> (pystr \<times> pystr) list" where
  "transcribe_args [] = []"
| "transcribe_args (Call_transcribe audio language # evs) =
     (audio, language) # transcribe_args evs"
| "transcribe_args (ev # evs) = transcribe_args evs"

fun printed :: "event list \<Rightarrow> pystr list" where
  "printed [] = []"
| "printed (Print s # evs) = s # printed evs"
| "printed (ev # evs) = printed evs"

text \<open>
  The identifier that the conditional expression of the script selects (read only after
  the usage check has passed, so the index is in range whenever it is used).
\<close>

definition model_name :: "pystr list \<Rightarrow> pystr" where
  "model_name argv = (if length argv > 2 then argv ! 2 else str ''base'')"

section \<open>A library for the examples\<close>

text \<open>
  A stand-in for the library, used only to instantiate the theorems: it knows the model
  \<open>base\<close> and \<open>large\<close>, fails on every other identifier, on the empty audio path and
  on the path \<open>missing.wav\<close>, and returns a text with whitespace around it: a lone
  surrogate for \<open>noise.wav\<close>, a word with the letter U+00E9 for \<open>cafe.wav\<close>, and two
  ASCII words for every other path.
\<close>

datatype stub_error = Unknown_model | Unreadable_audio

definition stub :: "(pystr, stub_error) whisper" where
  "stub = \<lparr> load_model = (\<lambda>name. if name = str ''base'' \<or> name = str ''large''
                                 then Inr name else Inl Unknown_model),
           transcribe = (\<lambda>model audio language.
                           if audio = [] \<or> audio = str ''missing.wav''
                           then Inl Unreadable_audio
                           else if audio = str ''noise.wav''
                           then Inr \<lparr> result_text = [32, 55296, 32] \<rparr>
                           else if audio = str ''cafe.wav''
                           then Inr \<lparr> result_text = str '' caf'' @ [233, 10] \<rparr>
                           else Inr \<lparr> result_text = str ''  hello world  '' \<rparr>) \<rparr>"

section \<open>What \<open>strip\<close> removes\<close>

lemma rev_dropWhile_split:
  "rev (dropWhile P (rev xs)) @ rev (takeWhile P (rev xs)) = xs"
proof -
  have "rev (takeWhile P (rev xs) @ dropWhile P (rev xs)) = xs"
    by (simp only: takeWhile_dropWhile_id rev_rev_ident)
  then show ?thesis by (simp only: rev_append)
qed

lemma rev_dropWhile_last:
  "rev (dropWhile P (rev xs)) \<noteq> [] \<Longrightarrow> \<not> P (last (rev (dropWhile P (rev xs))))"
  by (simp add: last_rev hd_dropWhile)

lemma rev_dropWhile_hd:
  assumes "rev (dropWhile P (rev xs)) \<noteq> []"
  shows "hd (rev (dropWhile P (rev xs))) = hd xs"
proof -
  have "hd (rev (dropWhile P (rev xs)) @ rev (takeWhile P (rev xs))) =
        hd (rev (dropWhile P (rev xs)))"
    using assms by (rule hd_append2)
  then show ?thesis by (simp only: rev_dropWhile_split)
qed

lemma strip_decomp:
  "\<exists>pre suf. s = pre @ strip s @ suf \<and> (\<forall>c \<in> set pre. isspace c) \<and> (\<forall>c \<in> set suf. isspace c)"
proof -
  let ?d = "dropWhile isspace s"
  let ?suf = "rev (takeWhile isspace (rev ?d))"
  have "takeWhile isspace s @ ?d = s" by (rule takeWhile_dropWhile_id)
  moreover have "strip s @ ?suf = ?d"
    unfolding strip_def by (rule rev_dropWhile_split)
  ultimately have "s = takeWhile isspace s @ strip s @ ?suf" by simp
  moreover have "\<forall>c \<in> set (takeWhile isspace s). isspace c"
    by (auto dest: set_takeWhileD)
  moreover have "\<forall>c \<in> set ?suf. isspace c"
    by (auto dest: set_takeWhileD)
  ultimately show ?thesis by blast
qed

lemma strip_ends:
  assumes "strip s \<noteq> []"
  shows "\<not> isspace (hd (strip s)) \<and> \<not> isspace (last (strip s))"
proof -
  let ?d = "dropWhile isspace s"
  have ne: "rev (dropWhile isspace (rev ?d)) \<noteq> []" using assms unfolding strip_def .
  have l: "\<not> isspace (last (strip s))"
    unfolding strip_def using ne by (rule rev_dropWhile_last)
  have h: "hd (strip s) = hd ?d"
    unfolding strip_def using ne by (rule rev_dropWhile_hd)
  have "?d \<noteq> []"
  proof
    assume "?d = []"
    then have "strip s = []" by (simp only: strip_def) simp
    with assms show False ..
  qed
  then have "\<not> isspace (hd ?d)" by (rule hd_dropWhile)
  with h l show ?thesis by simp
qed


section \<open>The run, case by case\<close>

lemma encodable_usage: "encodable enc usage"
  by (simp add: encodable_def usage_def str_def)

lemma run_usage:
  "length argv < 2 \<Longrightarrow>
   run whisper enc argv = (\<lparr>trace = [Print usage], out = usage @ [10]\<rparr>, Inl (SystemExit 1))"
  by (simp add: run_def transcribe_py_def py_bind_def py_print_def sys_exit_def encodable_usage)

lemma run_load_fails:
  "2 \<le> length argv \<Longrightarrow> load_model whisper (model_name argv) = Inl e \<Longrightarrow>
   run whisper enc argv =
     (\<lparr>trace = [Call_load_model (model_name argv)], out = []\<rparr>, Inl (Raised e))"
  by (cases "2 < length argv")
    (simp_all add: run_def transcribe_py_def py_bind_def py_return_def getitem_def
      whisper_load_model_def model_name_def)

lemma run_transcribe_fails:
  "2 \<le> length argv \<Longrightarrow> load_model whisper (model_name argv) = Inr model \<Longrightarrow>
   transcribe whisper model (argv ! 1) (str ''en'') = Inl e \<Longrightarrow>
   run whisper enc argv =
     (\<lparr>trace = [Call_load_model (model_name argv), Call_transcribe (argv ! 1) (str ''en'')],
       out = []\<rparr>, Inl (Raised e))"
  by (cases "2 < length argv")
    (simp_all add: run_def transcribe_py_def py_bind_def py_return_def getitem_def
      whisper_load_model_def model_transcribe_def model_name_def)

lemma run_success:
  "2 \<le> length argv \<Longrightarrow> load_model whisper (model_name argv) = Inr model \<Longrightarrow>
   transcribe whisper model (argv ! 1) (str ''en'') = Inr r \<Longrightarrow>
   encodable enc (strip (result_text r)) \<Longrightarrow>
   run whisper enc argv =
     (\<lparr>trace = [Call_load_model (model_name argv), Call_transcribe (argv ! 1) (str ''en''),
               Print (strip (result_text r))],
       out = strip (result_text r) @ [10]\<rparr>, Inr ())"
  by (cases "2 < length argv")
    (simp_all add: run_def transcribe_py_def py_bind_def py_return_def getitem_def
      whisper_load_model_def model_transcribe_def py_print_def model_name_def)

lemma run_print_fails:
  "2 \<le> length argv \<Longrightarrow> load_model whisper (model_name argv) = Inr model \<Longrightarrow>
   transcribe whisper model (argv ! 1) (str ''en'') = Inr r \<Longrightarrow>
   \<not> encodable enc (strip (result_text r)) \<Longrightarrow>
   run whisper enc argv =
     (\<lparr>trace = [Call_load_model (model_name argv), Call_transcribe (argv ! 1) (str ''en''),
               Print (strip (result_text r))],
       out = []\<rparr>, Inl UnicodeEncodeError)"
  by (cases "2 < length argv")
    (simp_all add: run_def transcribe_py_def py_bind_def py_return_def getitem_def
      whisper_load_model_def model_transcribe_def py_print_def model_name_def)

lemma run_cases:
  assumes "2 \<le> length argv"
  shows "run whisper enc argv =
    (case load_model whisper (model_name argv) of
       Inl e \<Rightarrow> (\<lparr>trace = [Call_load_model (model_name argv)], out = []\<rparr>, Inl (Raised e))
     | Inr model \<Rightarrow>
        (case transcribe whisper model (argv ! 1) (str ''en'') of
           Inl e \<Rightarrow> (\<lparr>trace = [Call_load_model (model_name argv),
                               Call_transcribe (argv ! 1) (str ''en'')],
                       out = []\<rparr>, Inl (Raised e))
         | Inr r \<Rightarrow>
            (if encodable enc (strip (result_text r))
             then (\<lparr>trace = [Call_load_model (model_name argv),
                              Call_transcribe (argv ! 1) (str ''en''),
                              Print (strip (result_text r))],
                     out = strip (result_text r) @ [10]\<rparr>, Inr ())
             else (\<lparr>trace = [Call_load_model (model_name argv),
                              Call_transcribe (argv ! 1) (str ''en''),
                              Print (strip (result_text r))],
                     out = []\<rparr>, Inl UnicodeEncodeError))))"
  using assms
  by (simp add: run_load_fails run_transcribe_fails run_success run_print_fails
      split: sum.splits)

lemma run_surplus:
  "run whisper enc [] = run whisper enc [p]"
  "run whisper enc [p, a] = run whisper enc [q, a]"
  "run whisper enc (p # a # m # rest) = run whisper enc [q, a, m]"
  by (simp_all add: run_usage run_cases model_name_def split: sum.splits)

lemma stub_facts:
  "load_model stub (str ''base'') = Inr (str ''base'')"
  "load_model stub (str ''large'') = Inr (str ''large'')"
  "load_model stub (str ''huge'') = Inl Unknown_model"
  "load_model stub [] = Inl Unknown_model"
  "transcribe stub model (str ''speech.wav'') language =
     Inr \<lparr> result_text = str ''  hello world  '' \<rparr>"
  "transcribe stub model (str ''noise.wav'') language = Inr \<lparr> result_text = [32, 55296, 32] \<rparr>"
  "transcribe stub model (str ''cafe.wav'') language =
     Inr \<lparr> result_text = str '' caf'' @ [233, 10] \<rparr>"
  "transcribe stub model (str ''missing.wav'') language = Inl Unreadable_audio"
  "transcribe stub model [] language = Inl Unreadable_audio"
  by (simp_all add: stub_def str_def)

lemma strip_hello: "strip (str ''  hello world  '') = str ''hello world''"
  by (simp add: strip_def str_def isspace_def)

lemma strip_noise: "strip [32, 55296, 32] = [55296]"
  by (simp add: strip_def isspace_def)

lemma strip_cafe: "strip (str '' caf'' @ [233, 10]) = str ''caf'' @ [233]"
  by (simp add: strip_def str_def isspace_def)

lemma encodable_examples:
  "encodable utf_8 (str ''hello world'')"
  "encodable ascii (str ''hello world'')"
  "\<not> encodable utf_8 [55296]"
  "encodable utf_8 (str ''caf'' @ [233])"
  "\<not> encodable ascii (str ''caf'' @ [233])"
  by (simp_all add: encodable_def utf_8_def ascii_def str_def)

section \<open>The usage error\<close>

text \<open>
  C1. When fewer than one positional argument is supplied (the argument vector holds at most
  the program name), the program prints exactly the usage string, followed by the newline of
  \<open>print\<close>, and exits with status 1; neither the model loader nor the transcription is
  called, and the usage line is the only output. The usage string is ASCII, so this holds
  whatever the encoding of standard output.
\<close>

theorem C1_usage_error:
  assumes "length argv < 2"
  shows "stdout (run whisper enc argv) =
           str ''Usage: python transcribe.py <audio_file>'' @ [10] \<and>
         exit_status (outcome (run whisper enc argv)) = 1 \<and>
         (\<forall>ev \<in> set (events (run whisper enc argv)). \<not> is_call ev) \<and>
         events (run whisper enc argv) = [Print usage]"
  using assms by (simp add: run_usage stdout_def events_def outcome_def usage_def)

theorem C1_usage_error_witness:
  "length [str ''transcribe.py''] < 2 \<and>
   stdout (run stub ascii [str ''transcribe.py'']) =
     str ''Usage: python transcribe.py <audio_file>'' @ [10] \<and>
   exit_status (outcome (run stub ascii [str ''transcribe.py''])) = 1 \<and>
   events (run stub ascii [str ''transcribe.py'']) = [Print usage]"
  using C1_usage_error [where argv = "[str ''transcribe.py'']" and whisper = stub and enc = ascii]
  by simp

section \<open>The transcript on standard output\<close>

text \<open>
  C2, as stated, for every invocation whose first argument is present: refuted, in two ways.
  With the audio path \<open>missing.wav\<close> the first argument is present, the transcription
  raises, and standard output stays empty. With the audio path \<open>noise.wav\<close> both delegate
  calls succeed, but the trimmed text is a lone surrogate, which UTF-8 does not encode:
  \<open>print\<close> raises and standard output stays empty again. In neither run is standard output
  a trimmed text followed by a newline.
\<close>

theorem C2_counterexample:
  "2 \<le> length [str ''transcribe.py'', str ''missing.wav''] \<and>
   outcome (run stub utf_8 [str ''transcribe.py'', str ''missing.wav'']) =
     Inl (Raised Unreadable_audio) \<and>
   stdout (run stub utf_8 [str ''transcribe.py'', str ''missing.wav'']) = [] \<and>
   2 \<le> length [str ''transcribe.py'', str ''noise.wav''] \<and>
   transcribe stub (str ''base'') (str ''noise.wav'') (str ''en'') =
     Inr \<lparr> result_text = [32, 55296, 32] \<rparr> \<and>
   outcome (run stub utf_8 [str ''transcribe.py'', str ''noise.wav'']) =
     Inl UnicodeEncodeError \<and>
   stdout (run stub utf_8 [str ''transcribe.py'', str ''noise.wav'']) = []"
  by (simp add: run_cases model_name_def stub_facts outcome_def stdout_def
      strip_noise encodable_examples)

text \<open>
  C2, amended. For every invocation whose first argument is present, whose model-load and
  transcription calls both succeed, and whose trimmed text the encoding of standard output
  can encode, standard output is the text field of the result with leading and trailing
  whitespace removed, followed by one newline, and nothing else. The trimmed text is the
  middle of the text field between two runs of whitespace, and it neither starts nor ends
  with whitespace.
\<close>

theorem C2_stdout_is_trimmed_text:
  assumes "2 \<le> length argv"
    and "load_model whisper (model_name argv) = Inr model"
    and "transcribe whisper model (argv ! 1) (str ''en'') = Inr r"
    and "encodable enc (strip (result_text r))"
  shows "stdout (run whisper enc argv) = strip (result_text r) @ [10] \<and>
         (\<exists>pre suf. result_text r = pre @ strip (result_text r) @ suf \<and>
                    (\<forall>c \<in> set pre. isspace c) \<and> (\<forall>c \<in> set suf. isspace c)) \<and>
         (strip (result_text r) \<noteq> [] \<longrightarrow>
            \<not> isspace (hd (strip (result_text r))) \<and>
            \<not> isspace (last (strip (result_text r))))"
proof -
  have "stdout (run whisper enc argv) = strip (result_text r) @ [10]"
    using assms by (simp add: run_success stdout_def)
  then show ?thesis
    using strip_decomp [of "result_text r"] strip_ends [of "result_text r"] by blast
qed

theorem C2_stdout_is_trimmed_text_witness:
  "2 \<le> length [str ''transcribe.py'', str ''cafe.wav''] \<and>
   load_model stub (model_name [str ''transcribe.py'', str ''cafe.wav'']) = Inr (str ''base'') \<and>
   transcribe stub (str ''base'') ([str ''transcribe.py'', str ''cafe.wav''] ! 1) (str ''en'') =
     Inr \<lparr> result_text = str '' caf'' @ [233, 10] \<rparr> \<and>
   encodable utf_8 (strip (str '' caf'' @ [233, 10])) \<and>
   stdout (run stub utf_8 [str ''transcribe.py'', str ''cafe.wav'']) =
     str ''caf'' @ [233, 10]"
proof -
  let ?argv = "[str ''transcribe.py'', str ''cafe.wav'']"
  let ?r = "\<lparr> result_text = str '' caf'' @ [233, 10] \<rparr>"
  have h1: "2 \<le> length ?argv" by simp
  have h2: "load_model stub (model_name ?argv) = Inr (str ''base'')"
    by (simp add: model_name_def stub_facts)
  have h3: "transcribe stub (str ''base'') (?argv ! 1) (str ''en'') = Inr ?r"
    by (simp add: stub_facts)
  have h4: "encodable utf_8 (strip (result_text ?r))"
    by (simp add: strip_cafe encodable_examples)
  from C2_stdout_is_trimmed_text [OF h1 h2 h3 h4] h1 h2 h3 h4 show ?thesis
    by (simp add: strip_cafe)
qed

section \<open>The arguments of the delegate calls\<close>

text \<open>
  C3. With an audio path and no second positional argument, the model loader is called
  once, and the identifier passed to it is exactly \<open>base\<close>.
\<close>

theorem C3_default_model:
  assumes "length argv = 2"
  shows "loader_args (events (run whisper enc argv)) = [str ''base'']"
  using assms by (simp add: run_cases events_def model_name_def split: sum.splits)

theorem C3_default_model_witness:
  "length [str ''transcribe.py'', str ''speech.wav''] = 2 \<and>
   loader_args (events (run stub utf_8 [str ''transcribe.py'', str ''speech.wav''])) =
     [str ''base'']"
  using C3_default_model
    [where argv = "[str ''transcribe.py'', str ''speech.wav'']" and whisper = stub and enc = utf_8]
  by simp

text \<open>
  C4. With an audio path and a second positional argument, the model loader is called once
  with that very string, whatever it is: nothing validates or transforms it.
\<close>

theorem C4_explicit_model:
  assumes "2 < length argv"
  shows "loader_args (events (run whisper enc argv)) = [argv ! 2]"
  using assms by (simp add: run_cases events_def model_name_def split: sum.splits)

theorem C4_explicit_model_witness:
  "2 < length [str ''transcribe.py'', str ''speech.wav'', str ''huge''] \<and>
   loader_args
     (events (run stub utf_8 [str ''transcribe.py'', str ''speech.wav'', str ''huge''])) =
     [str ''huge'']"
  using C4_explicit_model
    [where argv = "[str ''transcribe.py'', str ''speech.wav'', str ''huge'']"
       and whisper = stub and enc = utf_8]
  by simp

text \<open>
  C5. Every transcription call of every run has the language \<open>en\<close>, whatever the
  command line and whatever the library does.
\<close>

theorem C5_language_is_english:
  "\<forall>x \<in> set (transcribe_args (events (run whisper enc argv))). snd x = str ''en''"
proof (cases "length argv < 2")
  case True
  then show ?thesis by (simp add: run_usage events_def)
next
  case False
  then have "2 \<le> length argv" by simp
  then show ?thesis by (simp add: run_cases events_def split: sum.splits)
qed

theorem C5_language_is_english_witness:
  "(str ''speech.wav'', str ''en'') \<in>
     set (transcribe_args
           (events (run stub utf_8 [str ''transcribe.py'', str ''speech.wav'', str ''large'']))) \<and>
   snd (str ''speech.wav'', str ''en'') = str ''en''"
  using C5_language_is_english
    [where whisper = stub and enc = utf_8
       and argv = "[str ''transcribe.py'', str ''speech.wav'', str ''large'']"]
  by (simp add: run_cases events_def model_name_def stub_facts strip_hello encodable_examples)

section \<open>Failure and success of the delegates\<close>

text \<open>
  C6. When the usage check has passed and the model loader raises, or the loader returns a
  model and the transcription raises, the exception is not caught: it is the outcome of the
  run, the exit status is not 0, nothing was printed and standard output is empty.
\<close>

theorem C6_failure_propagates:
  assumes "2 \<le> length argv"
    and "load_model whisper (model_name argv) = Inl e \<or>
         (\<exists>model. load_model whisper (model_name argv) = Inr model \<and>
                  transcribe whisper model (argv ! 1) (str ''en'') = Inl e)"
  shows "outcome (run whisper enc argv) = Inl (Raised e) \<and>
         exit_status (outcome (run whisper enc argv)) \<noteq> 0 \<and>
         printed (events (run whisper enc argv)) = [] \<and>
         stdout (run whisper enc argv) = []"
  using assms
  by (auto simp add: run_load_fails run_transcribe_fails outcome_def stdout_def events_def)

theorem C6_failure_propagates_witness:
  "2 \<le> length [str ''transcribe.py'', str ''missing.wav''] \<and>
   load_model stub (model_name [str ''transcribe.py'', str ''missing.wav'']) = Inr (str ''base'') \<and>
   transcribe stub (str ''base'') ([str ''transcribe.py'', str ''missing.wav''] ! 1) (str ''en'') =
     Inl Unreadable_audio \<and>
   outcome (run stub utf_8 [str ''transcribe.py'', str ''missing.wav'']) =
     Inl (Raised Unreadable_audio) \<and>
   exit_status (outcome (run stub utf_8 [str ''transcribe.py'', str ''missing.wav''])) \<noteq> 0 \<and>
   stdout (run stub utf_8 [str ''transcribe.py'', str ''missing.wav'']) = [] \<and>
   2 \<le> length [str ''transcribe.py'', str ''speech.wav'', str ''huge''] \<and>
   load_model stub (model_name [str ''transcribe.py'', str ''speech.wav'', str ''huge'']) =
     Inl Unknown_model \<and>
   outcome (run stub utf_8 [str ''transcribe.py'', str ''speech.wav'', str ''huge'']) =
     Inl (Raised Unknown_model) \<and>
   exit_status
     (outcome (run stub utf_8 [str ''transcribe.py'', str ''speech.wav'', str ''huge''])) \<noteq> 0 \<and>
   stdout (run stub utf_8 [str ''transcribe.py'', str ''speech.wav'', str ''huge'']) = []"
proof -
  let ?a = "[str ''transcribe.py'', str ''missing.wav'']"
  let ?b = "[str ''transcribe.py'', str ''speech.wav'', str ''huge'']"
  have a1: "2 \<le> length ?a" by simp
  have a2: "load_model stub (model_name ?a) = Inr (str ''base'')"
    by (simp add: model_name_def stub_facts)
  have a3: "transcribe stub (str ''base'') (?a ! 1) (str ''en'') = Inl Unreadable_audio"
    by (simp add: stub_facts)
  have b1: "2 \<le> length ?b" by simp
  have b2: "load_model stub (model_name ?b) = Inl Unknown_model"
    by (simp add: model_name_def stub_facts)
  from a2 a3 have a4: "load_model stub (model_name ?a) = Inl Unreadable_audio \<or>
         (\<exists>model. load_model stub (model_name ?a) = Inr model \<and>
                  transcribe stub model (?a ! 1) (str ''en'') = Inl Unreadable_audio)"
    by blast
  from b2 have b4: "load_model stub (model_name ?b) = Inl Unknown_model \<or>
         (\<exists>model. load_model stub (model_name ?b) = Inr model \<and>
                  transcribe stub model (?b ! 1) (str ''en'') = Inl Unknown_model)"
    by blast
  from C6_failure_propagates [OF a1 a4, where enc = utf_8]
    C6_failure_propagates [OF b1 b4, where enc = utf_8] a1 a2 a3 b1 b2
  show ?thesis by blast
qed

text \<open>
  C7, as stated, for every invocation in which the argument check passes and both delegate
  calls succeed: refuted. With the audio path \<open>cafe.wav\<close> and an ASCII standard output both
  calls succeed, but the trimmed text holds U+00E9: \<open>print\<close> raises
  \<open>UnicodeEncodeError\<close>, which nothing catches, so the exit status is 1 and nothing is
  written. The same happens under UTF-8 with the lone surrogate of \<open>noise.wav\<close>.
\<close>

theorem C7_counterexample:
  "2 \<le> length [str ''transcribe.py'', str ''cafe.wav''] \<and>
   load_model stub (model_name [str ''transcribe.py'', str ''cafe.wav'']) = Inr (str ''base'') \<and>
   transcribe stub (str ''base'') (str ''cafe.wav'') (str ''en'') =
     Inr \<lparr> result_text = str '' caf'' @ [233, 10] \<rparr> \<and>
   outcome (run stub ascii [str ''transcribe.py'', str ''cafe.wav'']) = Inl UnicodeEncodeError \<and>
   exit_status (outcome (run stub ascii [str ''transcribe.py'', str ''cafe.wav''])) = 1 \<and>
   stdout (run stub ascii [str ''transcribe.py'', str ''cafe.wav'']) = [] \<and>
   exit_status (outcome (run stub utf_8 [str ''transcribe.py'', str ''noise.wav''])) = 1 \<and>
   stdout (run stub utf_8 [str ''transcribe.py'', str ''noise.wav'']) = []"
  by (simp add: run_cases model_name_def stub_facts outcome_def stdout_def
      strip_cafe strip_noise encodable_examples)

text \<open>
  C7, amended. When the usage check passes, both delegate calls succeed and the encoding of
  standard output can encode the trimmed text, the script runs to its end: the exit status
  is 0, and the one thing printed is the trimmed transcript text.
\<close>

theorem C7_success_exit_zero:
  assumes "2 \<le> length argv"
    and "load_model whisper (model_name argv) = Inr model"
    and "transcribe whisper model (argv ! 1) (str ''en'') = Inr r"
    and "encodable enc (strip (result_text r))"
  shows "outcome (run whisper enc argv) = Inr () \<and>
         exit_status (outcome (run whisper enc argv)) = 0 \<and>
         printed (events (run whisper enc argv)) = [strip (result_text r)] \<and>
         stdout (run whisper enc argv) = strip (result_text r) @ [10]"
  using assms by (simp add: run_success outcome_def stdout_def events_def)

theorem C7_success_exit_zero_witness:
  "2 \<le> length [str ''transcribe.py'', str ''speech.wav'', str ''large''] \<and>
   load_model stub (model_name [str ''transcribe.py'', str ''speech.wav'', str ''large'']) =
     Inr (str ''large'') \<and>
   transcribe stub (str ''large'')
     ([str ''transcribe.py'', str ''speech.wav'', str ''large''] ! 1) (str ''en'') =
     Inr \<lparr> result_text = str ''  hello world  '' \<rparr> \<and>
   encodable ascii (strip (str ''  hello world  '')) \<and>
   exit_status
     (outcome (run stub ascii [str ''transcribe.py'', str ''speech.wav'', str ''large''])) = 0 \<and>
   stdout (run stub ascii [str ''transcribe.py'', str ''speech.wav'', str ''large'']) =
     str ''hello world'' @ [10]"
proof -
  let ?argv = "[str ''transcribe.py'', str ''speech.wav'', str ''large'']"
  let ?r = "\<lparr> result_text = str ''  hello world  '' \<rparr>"
  have h1: "2 \<le> length ?argv" by simp
  have h2: "load_model stub (model_name ?argv) = Inr (str ''large'')"
    by (simp add: model_name_def stub_facts)
  have h3: "transcribe stub (str ''large'') (?argv ! 1) (str ''en'') = Inr ?r"
    by (simp add: stub_facts)
  have h4: "encodable ascii (strip (result_text ?r))"
    by (simp add: strip_hello encodable_examples)
  from C7_success_exit_zero [OF h1 h2 h3 h4] h1 h2 h3 h4 show ?thesis
    by (simp add: strip_hello)
qed

section \<open>The order of the calls\<close>

text \<open>
  C8, as stated, for every invocation whose first argument is present: refuted. With the
  unknown model identifier \<open>huge\<close> the first argument is present, the model loader is
  called and raises, and the run ends there: no transcription call and no print follow.
\<close>

theorem C8_counterexample:
  "2 \<le> length [str ''transcribe.py'', str ''speech.wav'', str ''huge''] \<and>
   events (run stub utf_8 [str ''transcribe.py'', str ''speech.wav'', str ''huge'']) =
     [Call_load_model (str ''huge'')] \<and>
   transcribe_args
     (events (run stub utf_8 [str ''transcribe.py'', str ''speech.wav'', str ''huge''])) = [] \<and>
   printed (events (run stub utf_8 [str ''transcribe.py'', str ''speech.wav'', str ''huge''])) = []"
  by (simp add: run_cases model_name_def stub_facts events_def)

text \<open>
  C8, amended. For every invocation whose first argument is present, the run is exactly:
  one model-load call; if it returns a model, then one transcription call on argument 1 as
  the audio path; if that returns a result, then one print of the trimmed text. A call that
  raises ends the run, so the trace is always an initial part of load, transcribe, print:
  transcription never comes before model loading, nor printing before the transcription
  has returned.
\<close>

theorem C8_call_order:
  assumes "2 \<le> length argv"
  shows "events (run whisper enc argv) =
    (case load_model whisper (model_name argv) of
       Inl e \<Rightarrow> [Call_load_model (model_name argv)]
     | Inr model \<Rightarrow>
        (case transcribe whisper model (argv ! 1) (str ''en'') of
           Inl e \<Rightarrow> [Call_load_model (model_name argv),
                     Call_transcribe (argv ! 1) (str ''en'')]
         | Inr r \<Rightarrow> [Call_load_model (model_name argv),
                     Call_transcribe (argv ! 1) (str ''en''),
                     Print (strip (result_text r))]))"
  using assms by (simp add: run_cases events_def split: sum.splits)

theorem C8_call_order_witness:
  "2 \<le> length [str ''transcribe.py'', str ''speech.wav''] \<and>
   events (run stub utf_8 [str ''transcribe.py'', str ''speech.wav'']) =
     [Call_load_model (str ''base''), Call_transcribe (str ''speech.wav'') (str ''en''),
      Print (str ''hello world'')]"
  using C8_call_order
    [where argv = "[str ''transcribe.py'', str ''speech.wav'']" and whisper = stub and enc = utf_8]
  by (simp add: model_name_def stub_facts strip_hello)

section \<open>What the usage check looks at\<close>

text \<open>
  C9. Two invocations that agree on their first two positional arguments (the entries 1 and
  2 of the argument vector, present or absent alike) have the same run: the same delegate
  calls with the same audio path and model identifier, the same output and the same
  outcome. In particular a run is the run on its first three entries, so surplus arguments
  raise nothing.
\<close>

theorem C9_surplus_ignored:
  assumes "take 2 (tl argv) = take 2 (tl argv')"
  shows "run whisper enc argv = run whisper enc argv' \<and>
         loader_args (events (run whisper enc argv)) =
           loader_args (events (run whisper enc argv')) \<and>
         transcribe_args (events (run whisper enc argv)) =
           transcribe_args (events (run whisper enc argv')) \<and>
         run whisper enc argv = run whisper enc (take 3 argv)"
proof -
  have shape: "run whisper enc xs = run whisper enc (p # take 2 (tl xs))" for xs p
  proof (cases xs)
    case Nil
    then show ?thesis by (simp add: run_surplus(1) [of whisper enc p])
  next
    case (Cons q ys)
    note xs = this
    show ?thesis
    proof (cases ys)
      case Nil
      with xs show ?thesis by (simp add: run_usage)
    next
      case (Cons a zs)
      note ys = this
      show ?thesis
      proof (cases zs)
        case Nil
        with xs ys show ?thesis by (simp add: run_surplus(2) [of whisper enc q a p])
      next
        case (Cons m rest)
        with xs ys show ?thesis
          by (simp add: run_surplus(3) [of whisper enc q a m rest p])
      qed
    qed
  qed
  have eq: "run whisper enc argv = run whisper enc argv'"
    using shape [of argv "[]"] shape [of argv' "[]"] assms by simp
  have "take 2 (tl (take 3 argv)) = take 2 (tl argv)"
    by (cases argv) (simp_all add: take_Cons')
  then have "run whisper enc (take 3 argv) = run whisper enc argv"
    using shape [of "take 3 argv" "[]"] shape [of argv "[]"] by simp
  with eq show ?thesis by simp
qed

theorem C9_surplus_ignored_witness:
  "take 2 (tl [str ''transcribe.py'', str ''speech.wav'', str ''large'', str ''extra'', []]) =
   take 2 (tl [str ''python'', str ''speech.wav'', str ''large'']) \<and>
   run stub utf_8 [str ''transcribe.py'', str ''speech.wav'', str ''large'', str ''extra'', []] =
   run stub utf_8 [str ''python'', str ''speech.wav'', str ''large'']"
  using C9_surplus_ignored
    [where argv = "[str ''transcribe.py'', str ''speech.wav'', str ''large'', str ''extra'', []]"
       and argv' = "[str ''python'', str ''speech.wav'', str ''large'']"
       and whisper = stub and enc = utf_8]
  by simp

text \<open>
  C10. The run ends in the usage error exactly when the argument vector has fewer than two
  entries, whatever they contain. With two or more, the model loader is given entry 2 as it
  is (or \<open>base\<close>), any transcription call is given entry 1 as it is, and the run either
  succeeds, or ends in the exception a delegate raised, or in the encoding error of the
  final \<open>print\<close>: never in an error of the argument handling. The empty string as audio
  path or as model name is such a content: it is passed on, and only the library can
  object to it.
\<close>

theorem C10_count_only:
  "(outcome (run whisper enc argv) = Inl (SystemExit 1)) = (length argv < 2) \<and>
   (2 \<le> length argv \<longrightarrow>
      loader_args (events (run whisper enc argv)) =
        [if 2 < length argv then argv ! 2 else str ''base''] \<and>
      (\<forall>x \<in> set (transcribe_args (events (run whisper enc argv))).
         x = (argv ! 1, str ''en'')) \<and>
      (outcome (run whisper enc argv) = Inr () \<or>
       (\<exists>e. outcome (run whisper enc argv) = Inl (Raised e)) \<or>
       (printed (events (run whisper enc argv)) \<noteq> [] \<and>
        outcome (run whisper enc argv) = Inl UnicodeEncodeError)))"
proof (cases "length argv < 2")
  case True
  then show ?thesis by (simp add: run_usage outcome_def)
next
  case False
  then have "2 \<le> length argv" by simp
  then show ?thesis
    by (simp add: run_cases outcome_def events_def model_name_def split: sum.splits)
qed

theorem C10_count_only_witness:
  "2 \<le> length [str ''transcribe.py'', []] \<and>
   outcome (run stub utf_8 [str ''transcribe.py'', []]) \<noteq> Inl (SystemExit 1) \<and>
   loader_args (events (run stub utf_8 [str ''transcribe.py'', []])) = [str ''base''] \<and>
   transcribe_args (events (run stub utf_8 [str ''transcribe.py'', []])) = [([], str ''en'')] \<and>
   outcome (run stub utf_8 [str ''transcribe.py'', []]) = Inl (Raised Unreadable_audio) \<and>
   2 \<le> length [str ''transcribe.py'', [], []] \<and>
   outcome (run stub utf_8 [str ''transcribe.py'', [], []]) \<noteq> Inl (SystemExit 1) \<and>
   loader_args (events (run stub utf_8 [str ''transcribe.py'', [], []])) = [[]] \<and>
   outcome (run stub utf_8 [str ''transcribe.py'', [], []]) = Inl (Raised Unknown_model)"
  using C10_count_only [where whisper = stub and enc = utf_8 and argv = "[str ''transcribe.py'', []]"]
    C10_count_only
      [where whisper = stub and enc = utf_8 and argv = "[str ''transcribe.py'', [], []]"]
  by (simp add: run_cases model_name_def stub_facts events_def outcome_def)

end
